theory Spec2Isabelle
  imports Main "HOL-Library.Multiset" "HOL-Library.Monad_Syntax"
begin

unbundle bit_operations_syntax

section \<open>Data model (app.go)\<close>

text \<open>
  Go's \<open>int\<close> is modelled as the unbounded \<open>int\<close>: every integer below counts lines,
  files, commits or screen cells of one repository and one terminal held in memory, far
  below \<open>2 ^ 63\<close>. Go's \<open>/\<close> and \<open>%\<close> truncate towards zero; they are written out as
  \<open>go_quot\<close> and \<open>go_rem\<close>.
\<close>

definition go_quot :: "int \<Rightarrow> int \<Rightarrow> int" where
  "go_quot a b = sgn a * sgn b * (\<bar>a\<bar> div \<bar>b\<bar>)"

definition go_rem :: "int \<Rightarrow> int \<Rightarrow> int" where
  "go_rem a b = a - b * go_quot a b"

text \<open>
  \<open>time.Time\<close> is used through \<open>Year()\<close>, \<open>Month()\<close>, \<open>Weekday()\<close> and
  \<open>Local().Hour()\<close> only; a value of it is modelled by these four readings.
\<close>

record time =
  Year :: int
  Month :: nat
  Weekday :: nat
  Hour :: nat

record commitInfo =
  Hash :: string
  Message :: string
  Author :: string
  Date :: time
  DiffLoaded :: bool
  DiffContent :: string
  Files :: int
  Additions :: int
  Deletions :: int
  Churn :: int
  CumulativeFiles :: int
  CumulativeAdditions :: int
  CumulativeDeletions :: int

record authorStat =
  name :: string
  churn :: int

datatype diffViewState = notInDiffView | inDiffView

record Config =
  CommitLimit :: int
  RepoPath :: string
  AutoProgress :: bool
  ProgressIntervalMs :: int

text \<open>
  The model of the application. The fields \<open>repo\<close>, \<open>processedCommitsChan\<close> and
  \<open>program\<close> of the Go struct are handles: the repository is passed to the functions
  that read it, and what a non-blocking receive on the channel yields is part of the tick
  message (type \<open>recv\<close> below). \<open>commits\<close> is a slice of pointers, each to a record
  of its own; a write through such a pointer is a list update at its index.
\<close>

record Model =
  config :: Config
  commits :: "commitInfo list"
  currentCommitIndex :: int
  width :: int
  height :: int
  networkGraphHeight :: int
  graphColumns :: int
  maxAdditions :: int
  maxDeletions :: int
  autoProgress :: bool
  progressInterval :: int
  loadingComplete :: bool
  diffState :: diffViewState
  currentDiff :: string
  diffScroll :: int
  displayedStatsYear :: int
  availableStatYears :: "int list"
  currentStatYearIndex :: int

definition InitialModel :: "Config \<Rightarrow> Model" where
  "InitialModel cfg =
     \<lparr> config = cfg, commits = [], currentCommitIndex = 0, width = 0, height = 0,
       networkGraphHeight = 0, graphColumns = 0, maxAdditions = 0, maxDeletions = 0,
       autoProgress = AutoProgress cfg, progressInterval = ProgressIntervalMs cfg,
       loadingComplete = False, diffState = notInDiffView, currentDiff = [],
       diffScroll = 0, displayedStatsYear = 0, availableStatYears = [],
       currentStatYearIndex = 0 \<rparr>"

section \<open>The repository reader (go-git), as a parameter\<close>

text \<open>
  The go-git calls of \<open>fetcher\<close> and \<open>getDiff\<close> are fields of a \<open>repository\<close>:
  \<open>CommitObject\<close> and \<open>TreeObject\<close> look a hash up, \<open>PatchTo p c\<close> is
  \<open>p.Patch(c)\<close> and \<open>emptyTree\<close> is \<open>&object.Tree{}\<close>. A call that returns an error
  is \<open>Inl\<close> of the error's message.
\<close>

record fileStat =
  Name :: string
  Addition :: int
  Deletion :: int

record patch =
  patchStats :: "fileStat list"
  patchString :: string

record commitObject =
  objHash :: string
  objMessage :: string
  objAuthorName :: string
  objAuthorWhen :: time
  TreeHash :: string
  ParentHashes :: "string list"

record 'tree repository =
  CommitObject :: "string \<Rightarrow> string + commitObject"
  TreeObject :: "string \<Rightarrow> string + 'tree"
  PatchTo :: "'tree \<Rightarrow> 'tree \<Rightarrow> string + patch"
  emptyTree :: "'tree"

definition NumParents :: "commitObject \<Rightarrow> int" where
  "NumParents c = int (length (ParentHashes c))"

text \<open>go-git's \<open>Commit.Tree()\<close>: the tree object of the commit's tree hash.\<close>

definition Tree :: "'tree repository \<Rightarrow> commitObject \<Rightarrow> string + 'tree" where
  "Tree r c = TreeObject r (TreeHash c)"

text \<open>go-git's \<open>Commit.Parent(i)\<close>: an error when there is no such parent.\<close>

definition Parent :: "'tree repository \<Rightarrow> commitObject \<Rightarrow> nat \<Rightarrow> string + commitObject" where
  "Parent r c i =
     (if length (ParentHashes c) = 0 \<or> i \<ge> length (ParentHashes c)
      then Inl ''parent not found''
      else CommitObject r (ParentHashes c ! i))"

section \<open>The ingestor: \<open>fetcher\<close>\<close>

text \<open>The sums of the loop \<open>for _, s := range stats\<close>.\<close>

fun sumStats :: "fileStat list \<Rightarrow> int \<Rightarrow> int \<Rightarrow> int \<times> int" where
  "sumStats [] additions deletions = (additions, deletions)"
| "sumStats (s # ss) additions deletions =
     sumStats ss (additions + Addition s) (deletions + Deletion s)"

definition newCommitInfo :: "commitObject \<Rightarrow> int \<Rightarrow> int \<Rightarrow> int \<Rightarrow> int \<Rightarrow> commitInfo" where
  "newCommitInfo commit filesChanged additions deletions churn' =
     \<lparr> Hash = objHash commit, Message = objMessage commit, Author = objAuthorName commit,
       Date = objAuthorWhen commit, DiffLoaded = False, DiffContent = [],
       Files = filesChanged, Additions = additions, Deletions = deletions, Churn = churn',
       CumulativeFiles = 0, CumulativeAdditions = 0, CumulativeDeletions = 0 \<rparr>"

text \<open>
  One pass of the loop body of \<open>fetcher\<close> for the hash \<open>hashStr\<close>: \<open>None\<close> where the
  source says \<open>continue\<close> (the commit is skipped), otherwise the record that is sent.
\<close>

definition processCommit :: "'tree repository \<Rightarrow> string \<Rightarrow> commitInfo option" where
  "processCommit r hashStr =
     (case CommitObject r hashStr of
        Inl _ \<Rightarrow> None
      | Inr commit \<Rightarrow>
          if NumParents commit > 0 then
            (case Parent r commit 0 of
               Inl _ \<Rightarrow> None
             | Inr parent \<Rightarrow>
                 (case Tree r commit of
                    Inl _ \<Rightarrow> None
                  | Inr cTree \<Rightarrow>
                      (case Tree r parent of
                         Inl _ \<Rightarrow> None
                       | Inr pTree \<Rightarrow>
                           (case PatchTo r pTree cTree of
                              Inl _ \<Rightarrow> None
                            | Inr p \<Rightarrow>
                                (let stats = patchStats p;
                                     filesChanged = int (length stats);
                                     (additions, deletions) = sumStats stats 0 0;
                                     churn' = additions + deletions
                                 in Some (newCommitInfo commit filesChanged additions deletions churn'))))))
          else Some (newCommitInfo commit 0 0 0 0))"

text \<open>
  The loop of \<open>fetcher\<close> over the hashes that \<open>git rev-list --reverse HEAD\<close> prints,
  with \<open>commitCount\<close> and the \<open>break\<close> at the commit limit; the result is the sequence
  of records sent on the channel.
\<close>

fun fetcherLoop :: "'tree repository \<Rightarrow> int \<Rightarrow> string list \<Rightarrow> int \<Rightarrow> commitInfo list" where
  "fetcherLoop r limit [] commitCount = []"
| "fetcherLoop r limit (hashStr # rest) commitCount =
     (case processCommit r hashStr of
        None \<Rightarrow> fetcherLoop r limit rest commitCount
      | Some c \<Rightarrow>
          c # (if limit > 0 \<and> commitCount + 1 \<ge> limit then []
               else fetcherLoop r limit rest (commitCount + 1)))"

section \<open>The diff viewer: \<open>getDiff\<close>\<close>

text \<open>
  \<open>getDiff\<close> returns the record as it leaves it (the cache is written through the
  pointer) and the result: \<open>Inl\<close> the error's message, \<open>Inr\<close> the diff text.
\<close>

definition getDiff :: "'tree repository \<Rightarrow> commitInfo \<Rightarrow> commitInfo \<times> (string + string)" where
  "getDiff r commit =
     (if DiffContent commit \<noteq> [] then (commit, Inr (DiffContent commit))
      else
        (case CommitObject r (Hash commit) of
           Inl err \<Rightarrow> (commit, Inl err)
         | Inr commitObject \<Rightarrow>
             if NumParents commitObject = 0 then
               (case Tree r commitObject of
                  Inl err \<Rightarrow> (commit, Inl err)
                | Inr tree \<Rightarrow>
                    (case PatchTo r (emptyTree r) tree of
                       Inl err \<Rightarrow> (commit, Inl err)
                     | Inr p \<Rightarrow>
                         (commit\<lparr>DiffContent := patchString p\<rparr>, Inr (patchString p))))
             else
               (case Parent r commitObject 0 of
                  Inl err \<Rightarrow> (commit, Inl err)
                | Inr parent \<Rightarrow>
                    (case Tree r commitObject of
                       Inl err \<Rightarrow> (commit, Inl err)
                     | Inr cTree \<Rightarrow>
                         (case Tree r parent of
                            Inl err \<Rightarrow> (commit, Inl err)
                          | Inr pTree \<Rightarrow>
                              (case PatchTo r pTree cTree of
                                 Inl err \<Rightarrow> (commit, Inl err)
                               | Inr p \<Rightarrow>
                                   (commit\<lparr>DiffContent := patchString p\<rparr>,
                                    Inr (patchString p))))))))"

section \<open>The replay engine: \<open>Update\<close>\<close>

text \<open>
  A message of the event loop. A key message carries \<open>msg.String()\<close>. A tick carries
  what the non-blocking \<open>select\<close> on the channel yields at that moment: a record, the
  end of the stream (\<open>ok\<close> is false) or nothing (the \<open>default\<close> case); it is read only
  when auto-advance is on.
\<close>

datatype recv = RecvCommit commitInfo | RecvClosed | RecvEmpty

datatype msg = KeyMsg string | WindowSizeMsg int int | progressTickMsg recv | errMsg | otherMsg

datatype cmd = NoCmd | Quit | TickCmd

text \<open>A run-time panic of Go: an index or a slice bound out of range.\<close>

datatype panic = IndexOutOfRange int int | SliceBoundsOutOfRange int int

text \<open>\<open>m.commits[i]\<close>: Go panics when \<open>i\<close> is not an index of the slice.\<close>

definition commitAt :: "commitInfo list \<Rightarrow> int \<Rightarrow> panic + commitInfo" where
  "commitAt cs i =
     (if 0 \<le> i \<and> i < int (length cs) then Inr (cs ! nat i)
      else Inl (IndexOutOfRange i (int (length cs))))"

definition yearAt :: "int list \<Rightarrow> int \<Rightarrow> panic + int" where
  "yearAt ys i =
     (if 0 \<le> i \<and> i < int (length ys) then Inr (ys ! nat i)
      else Inl (IndexOutOfRange i (int (length ys))))"

text \<open>
  The block that the source repeats three times (on Enter, and on left and right in the
  diff view): read \<open>m.commits[m.currentCommitIndex]\<close>, fetch its diff, store the text or
  the error line in \<open>currentDiff\<close>.
\<close>

definition loadDiff :: "'tree repository \<Rightarrow> Model \<Rightarrow> panic + Model" where
  "loadDiff r m =
     (case commitAt (commits m) (currentCommitIndex m) of
        Inl p \<Rightarrow> Inl p
      | Inr currentCommit \<Rightarrow>
          (case getDiff r currentCommit of
             (c', Inl err) \<Rightarrow>
               Inr (m\<lparr>commits := (commits m)[nat (currentCommitIndex m) := c'],
                       currentDiff := ''Error getting diff: '' @ err\<rparr>)
           | (c', Inr diff) \<Rightarrow>
               Inr (m\<lparr>commits := (commits m)[nat (currentCommitIndex m) := c'],
                       currentDiff := diff\<rparr>)))"

text \<open>The key cases of \<open>Update\<close> while \<open>m.diffState == inDiffView\<close>.\<close>

definition updateDiffKey :: "'tree repository \<Rightarrow> Model \<Rightarrow> string \<Rightarrow> panic + Model \<times> cmd" where
  "updateDiffKey r m k =
     (if k = ''q'' \<or> k = ''ctrl+c'' \<or> k = ''esc'' \<or> k = ''enter'' then
        Inr (m\<lparr>diffState := notInDiffView\<rparr>, NoCmd)
      else if k = ''up'' \<or> k = ''k'' then
        Inr (m\<lparr>diffScroll := (if diffScroll m - 1 < 0 then 0 else diffScroll m - 1)\<rparr>, NoCmd)
      else if k = ''down'' \<or> k = ''j'' then
        Inr (m\<lparr>diffScroll := diffScroll m + 1\<rparr>, NoCmd)
      else if k = ''pgup'' then
        Inr (m\<lparr>diffScroll :=
               (if diffScroll m - height m < 0 then 0 else diffScroll m - height m)\<rparr>, NoCmd)
      else if k = ''pgdown'' \<or> k = '' '' then
        Inr (m\<lparr>diffScroll := diffScroll m + height m\<rparr>, NoCmd)
      else if k = ''left'' \<or> k = ''h'' then
        (let m1 = m\<lparr>autoProgress := False\<rparr> in
         if currentCommitIndex m1 > 0 then
           (case loadDiff r (m1\<lparr>currentCommitIndex := currentCommitIndex m1 - 1\<rparr>) of
              Inl p \<Rightarrow> Inl p
            | Inr m2 \<Rightarrow> Inr (m2\<lparr>diffScroll := 0\<rparr>, NoCmd))
         else Inr (m1, NoCmd))
      else if k = ''right'' \<or> k = ''l'' then
        (let m1 = m\<lparr>autoProgress := False\<rparr> in
         if currentCommitIndex m1 < int (length (commits m1)) - 1 then
           (case loadDiff r (m1\<lparr>currentCommitIndex := currentCommitIndex m1 + 1\<rparr>) of
              Inl p \<Rightarrow> Inl p
            | Inr m2 \<Rightarrow> Inr (m2\<lparr>diffScroll := 0\<rparr>, NoCmd))
         else Inr (m1, NoCmd))
      else Inr (m, NoCmd))"

text \<open>The key cases of \<open>Update\<close> outside the diff view.\<close>

definition updateNormalKey :: "'tree repository \<Rightarrow> Model \<Rightarrow> string \<Rightarrow> panic + Model \<times> cmd" where
  "updateNormalKey r m k =
     (if k = ''q'' \<or> k = ''ctrl+c'' then Inr (m, Quit)
      else if k = ''right'' \<or> k = ''l'' then
        (let m1 = m\<lparr>autoProgress := False\<rparr> in
         if currentCommitIndex m1 < int (length (commits m1)) - 1
         then Inr (m1\<lparr>currentCommitIndex := currentCommitIndex m1 + 1\<rparr>, NoCmd)
         else Inr (m1, NoCmd))
      else if k = ''left'' \<or> k = ''h'' then
        (let m1 = m\<lparr>autoProgress := False\<rparr> in
         if currentCommitIndex m1 > 0
         then Inr (m1\<lparr>currentCommitIndex := currentCommitIndex m1 - 1\<rparr>, NoCmd)
         else Inr (m1, NoCmd))
      else if k = ''up'' \<or> k = ''k'' then
        (if length (availableStatYears m) > 0 then
           (let i = currentStatYearIndex m - 1;
                i = (if i < 0 then int (length (availableStatYears m)) - 1 else i)
            in case yearAt (availableStatYears m) i of
                 Inl p \<Rightarrow> Inl p
               | Inr y \<Rightarrow> Inr (m\<lparr>currentStatYearIndex := i, displayedStatsYear := y\<rparr>, NoCmd))
         else Inr (m, NoCmd))
      else if k = ''down'' \<or> k = ''j'' then
        (if length (availableStatYears m) > 0 then
           (let i = go_rem (currentStatYearIndex m + 1) (int (length (availableStatYears m)))
            in case yearAt (availableStatYears m) i of
                 Inl p \<Rightarrow> Inl p
               | Inr y \<Rightarrow> Inr (m\<lparr>currentStatYearIndex := i, displayedStatsYear := y\<rparr>, NoCmd))
         else Inr (m, NoCmd))
      else if k = ''p'' \<or> k = '' '' then
        Inr (m\<lparr>autoProgress := \<not> autoProgress m\<rparr>, NoCmd)
      else if k = ''enter'' then
        (if \<not> autoProgress m then
           (case loadDiff r (m\<lparr>diffState := inDiffView, diffScroll := 0\<rparr>) of
              Inl p \<Rightarrow> Inl p
            | Inr m2 \<Rightarrow> Inr (m2, NoCmd))
         else Inr (m, NoCmd))
      else Inr (m, NoCmd))"

text \<open>
  The integration of a received record on a tick: the cumulative fields from the last
  visible record (or the record's own deltas when it is the first), the running maxima,
  the append, and the cursor on the new last index.
\<close>

definition integrate :: "Model \<Rightarrow> commitInfo \<Rightarrow> Model" where
  "integrate m newCommit =
     (let c1 = newCommit\<lparr>DiffLoaded := True\<rparr>;
          c2 = (if length (commits m) > 0 then
                  (let lastCommit = last (commits m) in
                   c1\<lparr>CumulativeFiles := CumulativeFiles lastCommit + Files c1,
                      CumulativeAdditions := CumulativeAdditions lastCommit + Additions c1,
                      CumulativeDeletions := CumulativeDeletions lastCommit + Deletions c1\<rparr>)
                else
                  c1\<lparr>CumulativeFiles := Files c1,
                     CumulativeAdditions := Additions c1,
                     CumulativeDeletions := Deletions c1\<rparr>);
          m1 = (if Additions c2 > maxAdditions m then m\<lparr>maxAdditions := Additions c2\<rparr> else m);
          m2 = (if Deletions c2 > maxDeletions m1 then m1\<lparr>maxDeletions := Deletions c2\<rparr> else m1);
          m3 = m2\<lparr>commits := commits m2 @ [c2]\<rparr>
      in m3\<lparr>currentCommitIndex := int (length (commits m3)) - 1\<rparr>)"

definition updateTick :: "Model \<Rightarrow> recv \<Rightarrow> Model" where
  "updateTick m rc =
     (if autoProgress m then
        (case rc of
           RecvCommit newCommit \<Rightarrow> integrate m newCommit
         | RecvClosed \<Rightarrow> m\<lparr>loadingComplete := True\<rparr>
         | RecvEmpty \<Rightarrow> m)
      else m)"

definition Update :: "'tree repository \<Rightarrow> Model \<Rightarrow> msg \<Rightarrow> panic + Model \<times> cmd" where
  "Update r m message =
     (case message of
        KeyMsg k \<Rightarrow>
          (if diffState m = inDiffView then updateDiffKey r m k else updateNormalKey r m k)
      | WindowSizeMsg w h \<Rightarrow>
          (let m1 = m\<lparr>width := w - 10\<rparr>;
               m2 = m1\<lparr>height := h - 10\<rparr>;
               m3 = m2\<lparr>graphColumns := go_quot (width m2) 2 - 10\<rparr>
           in Inr (m3\<lparr>networkGraphHeight := go_quot (height m3) 3 - 10\<rparr>, NoCmd))
      | progressTickMsg rc \<Rightarrow> Inr (updateTick m rc, TickCmd)
      | errMsg \<Rightarrow> Inr (m, Quit)
      | otherMsg \<Rightarrow> Inr (m, NoCmd))"

section \<open>The view: \<open>View\<close>, \<open>renderDiffView\<close>, \<open>renderDeveloperStats\<close>\<close>

text \<open>\<open>strings.Split(s, "\n")\<close>: an empty text is one empty line.\<close>

fun splitLines :: "string \<Rightarrow> string list" where
  "splitLines [] = [[]]"
| "splitLines (c # cs) =
     (if c = CHR 0x0A then [] # splitLines cs
      else (case splitLines cs of
              [] \<Rightarrow> [[c]]
            | l # ls \<Rightarrow> (c # l) # ls))"

text \<open>
  The window \<open>(start, end)\<close> that \<open>renderDiffView\<close> computes from the scroll offset
  and the viewport height, with its three clamps in the order of the source.
\<close>

definition diffWindow :: "Model \<Rightarrow> int \<times> int" where
  "diffWindow m =
     (let n = int (length (splitLines (currentDiff m)));
          start = diffScroll m;
          end' = start + height m;
          start = (if start < 0 then 0 else start);
          end' = (if end' > n then n else end');
          start = (if start > end' then end' else start)
      in (start, end'))"

text \<open>
  \<open>renderDiffView\<close>: the visible lines \<open>lines[start:end]\<close> (their colours are not
  modelled). The slice expression panics unless \<open>0 \<le> start \<le> end \<le> len(lines)\<close>.
\<close>

definition renderDiffView :: "Model \<Rightarrow> panic + string list" where
  "renderDiffView m =
     (let lines = splitLines (currentDiff m);
          (start, end') = diffWindow m
      in if 0 \<le> start \<and> start \<le> end' \<and> end' \<le> int (length lines)
         then Inr (take (nat (end' - start)) (drop (nat start) lines))
         else Inl (SliceBoundsOutOfRange start end'))"

text \<open>
  The first lines of \<open>renderDeveloperStats\<close>: the distinct years of the commits up to
  the cursor, sorted in descending order, after the sentinel 0 for all time.
\<close>

definition statYears :: "Model \<Rightarrow> int list" where
  "statYears m =
     0 # rev (sort (remdups (map (\<lambda>c. Year (Date c))
                     (take (nat (currentCommitIndex m + 1)) (commits m)))))"

text \<open>
  What \<open>View\<close> does to the model: in the diff view it renders the window; otherwise,
  when there are commits, it pulls the cursor back to the last index, reads the commit
  at the cursor and stores the year list. The text of the panels is not modelled.
\<close>

definition View :: "Model \<Rightarrow> panic + Model" where
  "View m =
     (if diffState m = inDiffView then
        (case renderDiffView m of Inl p \<Rightarrow> Inl p | Inr _ \<Rightarrow> Inr m)
      else if length (commits m) = 0 then Inr m
      else
        (let m1 = (if currentCommitIndex m \<ge> int (length (commits m))
                   then m\<lparr>currentCommitIndex := int (length (commits m)) - 1\<rparr> else m)
         in case commitAt (commits m1) (currentCommitIndex m1) of
              Inl p \<Rightarrow> Inl p
            | Inr _ \<Rightarrow> Inr (m1\<lparr>availableStatYears := statYears m1\<rparr>)))"

text \<open>
  The event loop handles a message with \<open>Update\<close> and then renders with \<open>View\<close>. The
  returned command is not interpreted: the messages that commands produce (ticks) are
  inputs of the run like any other message.
\<close>

definition frame :: "'tree repository \<Rightarrow> Model \<Rightarrow> msg \<Rightarrow> panic + Model" where
  "frame r m message =
     (case Update r m message of
        Inl p \<Rightarrow> Inl p
      | Inr (m', _) \<Rightarrow> View m')"

fun run :: "'tree repository \<Rightarrow> Model \<Rightarrow> msg list \<Rightarrow> panic + Model" where
  "run r m [] = Inr m"
| "run r m (message # rest) =
     (case frame r m message of
        Inl p \<Rightarrow> Inl p
      | Inr m' \<Rightarrow> run r m' rest)"

section \<open>The headless drain: \<open>runNonInteractive\<close>\<close>

text \<open>
  The loop \<open>for commit := range model.processedCommitsChan\<close> over the records that the
  ingestor sends until it closes the channel.
\<close>

fun drainLoop :: "commitInfo list \<Rightarrow> commitInfo list \<Rightarrow> commitInfo list" where
  "drainLoop allCommits [] = allCommits"
| "drainLoop allCommits (commit # rest) =
     (let c = (if length allCommits > 0 then
                 (let lastCommit = last allCommits in
                  commit\<lparr>CumulativeFiles := CumulativeFiles lastCommit + Files commit,
                         CumulativeAdditions := CumulativeAdditions lastCommit + Additions commit,
                         CumulativeDeletions := CumulativeDeletions lastCommit + Deletions commit\<rparr>)
               else
                 commit\<lparr>CumulativeFiles := Files commit,
                        CumulativeAdditions := Additions commit,
                        CumulativeDeletions := Deletions commit\<rparr>)
      in drainLoop (allCommits @ [c]) rest)"

section \<open>Developer statistics: the top contributors of \<open>renderDeveloperStats\<close>\<close>

text \<open>The loop \<open>authorChurn[c.Author] += c.Churn\<close> over the analysed commits.\<close>

fun authorChurnLoop :: "(string \<rightharpoonup> int) \<Rightarrow> commitInfo list \<Rightarrow> (string \<rightharpoonup> int)" where
  "authorChurnLoop authorChurn [] = authorChurn"
| "authorChurnLoop authorChurn (c # cs) =
     authorChurnLoop
       (authorChurn(Author c \<mapsto> (case authorChurn (Author c) of None \<Rightarrow> 0 | Some v \<Rightarrow> v) + Churn c))
       cs"

text \<open>
  \<open>for name, churn := range authorChurn\<close> visits every key once, in an order that Go
  leaves open: the order is the list \<open>keys\<close>, any list that \<open>rangeOrder\<close> admits.
\<close>

definition rangeOrder :: "(string \<rightharpoonup> int) \<Rightarrow> string list \<Rightarrow> bool" where
  "rangeOrder authorChurn keys \<longleftrightarrow> distinct keys \<and> set keys = dom authorChurn"

definition contributorsInOrder :: "(string \<rightharpoonup> int) \<Rightarrow> string list \<Rightarrow> authorStat list" where
  "contributorsInOrder authorChurn keys =
     map (\<lambda>k. \<lparr> name = k, churn = (case authorChurn k of None \<Rightarrow> 0 | Some v \<Rightarrow> v) \<rparr>) keys"

text \<open>
  \<open>sort.Slice(x, less)\<close> is documented as a sort that is not guaranteed to be stable:
  its result \<open>ys\<close> is some rearrangement of \<open>xs\<close> in which no later element is
  less than an earlier one.
\<close>

definition sortSliceResult :: "('a \<Rightarrow> 'a \<Rightarrow> bool) \<Rightarrow> 'a list \<Rightarrow> 'a list \<Rightarrow> bool" where
  "sortSliceResult lessFn xs ys \<longleftrightarrow> mset ys = mset xs \<and> sorted_wrt (\<lambda>a b. \<not> lessFn b a) ys"

text \<open>
  The top contributors of the analysed commits \<open>cs\<close>: \<open>keys\<close> is the order of the map
  iteration, \<open>ranked\<close> the slice after \<open>sort.Slice\<close>, and \<open>shown\<close> the entries that
  the loop \<open>for i := 0; i < len(topContributors) && i < 5; i++\<close> prints.
\<close>

definition topContributors ::
  "commitInfo list \<Rightarrow> string list \<Rightarrow> authorStat list \<Rightarrow> authorStat list \<Rightarrow> bool" where
  "topContributors cs keys ranked shown \<longleftrightarrow>
     rangeOrder (authorChurnLoop Map.empty cs) keys \<and>
     sortSliceResult (\<lambda>a b. churn a > churn b)
       (contributorsInOrder (authorChurnLoop Map.empty cs) keys) ranked \<and>
     shown = take 5 ranked"

text \<open>
  The words of the specification: the total churn of an author over the analysed range,
  the position at which an author is first seen, and ties in first-seen order.
\<close>

definition totalChurn :: "commitInfo list \<Rightarrow> string \<Rightarrow> int" where
  "totalChurn cs a = sum_list (map Churn (filter (\<lambda>c. Author c = a) cs))"

definition firstSeen :: "commitInfo list \<Rightarrow> string \<Rightarrow> nat" where
  "firstSeen cs a = length (takeWhile (\<lambda>c. Author c \<noteq> a) cs)"

definition tiesFirstSeen :: "commitInfo list \<Rightarrow> authorStat list \<Rightarrow> bool" where
  "tiesFirstSeen cs shown \<longleftrightarrow>
     sorted_wrt (\<lambda>a b. churn a = churn b \<longrightarrow> firstSeen cs (name a) < firstSeen cs (name b)) shown"

section \<open>The dot-matrix canvas (\<open>BrailleCanvas\<close>)\<close>

record BrailleCanvas =
  Width :: int
  Height :: int
  buffer :: "bool list"

text \<open>\<open>make([]bool, n)\<close> panics for a negative length: \<open>None\<close>.\<close>

definition NewBrailleCanvas :: "int \<Rightarrow> int \<Rightarrow> BrailleCanvas option" where
  "NewBrailleCanvas w h =
     (if w * h < 0 then None
      else Some \<lparr> Width = w, Height = h, buffer = replicate (nat (w * h)) False \<rparr>)"

text \<open>
  \<open>Set\<close> and \<open>get\<close> guard the coordinates and then index the buffer; an index outside
  the buffer is a panic of Go: \<open>None\<close>.
\<close>

definition Set :: "BrailleCanvas \<Rightarrow> int \<Rightarrow> int \<Rightarrow> BrailleCanvas option" where
  "Set c x y =
     (if x < 0 \<or> x \<ge> Width c \<or> y < 0 \<or> y \<ge> Height c then Some c
      else if 0 \<le> y * Width c + x \<and> nat (y * Width c + x) < length (buffer c)
      then Some (c\<lparr>buffer := (buffer c)[nat (y * Width c + x) := True]\<rparr>)
      else None)"

definition get :: "BrailleCanvas \<Rightarrow> int \<Rightarrow> int \<Rightarrow> bool option" where
  "get c x y =
     (if x < 0 \<or> x \<ge> Width c \<or> y < 0 \<or> y \<ge> Height c then Some False
      else if 0 \<le> y * Width c + x \<and> nat (y * Width c + x) < length (buffer c)
      then Some (buffer c ! nat (y * Width c + x))
      else None)"

text \<open>
  The body of the inner loop of \<open>String\<close>: the rune of the block with origin \<open>(x, y)\<close>.
  A rune is its code point; \<open>WriteRune\<close>'s UTF-8 encoding of it is not modelled.
\<close>

definition cellRune :: "BrailleCanvas \<Rightarrow> int \<Rightarrow> int \<Rightarrow> int option" where
  "cellRune c x y =
     do {
       let r = (0x2800 :: int);
       b \<leftarrow> get c x y;
       let r = (if b then r OR 1 else r);
       b \<leftarrow> get c x (y + 1);
       let r = (if b then r OR 2 else r);
       b \<leftarrow> get c x (y + 2);
       let r = (if b then r OR 4 else r);
       b \<leftarrow> get c (x + 1) y;
       let r = (if b then r OR 8 else r);
       b \<leftarrow> get c (x + 1) (y + 1);
       let r = (if b then r OR 16 else r);
       b \<leftarrow> get c (x + 1) (y + 2);
       let r = (if b then r OR 32 else r);
       b \<leftarrow> get c x (y + 3);
       let r = (if b then r OR 64 else r);
       b \<leftarrow> get c (x + 1) (y + 3);
       let r = (if b then r OR 128 else r);
       Some r
     }"

text \<open>The inner loop \<open>for x := 0; x < c.Width; x += 2\<close>, entered at \<open>x\<close>.\<close>

function rowRunes :: "BrailleCanvas \<Rightarrow> int \<Rightarrow> int \<Rightarrow> int list option" where
  "rowRunes c x y =
     (if x < Width c then
        do { r \<leftarrow> cellRune c x y; rs \<leftarrow> rowRunes c (x + 2) y; Some (r # rs) }
      else Some [])"
  by pat_completeness auto
termination
  by (relation "measure (\<lambda>(c, x, y). nat (Width c - x))") auto

text \<open>
  The outer loop \<open>for y := 0; y < c.Height; y += 4\<close>, entered at \<open>y\<close>; every row ends
  with the newline (code point 10).
\<close>

function stringRows :: "BrailleCanvas \<Rightarrow> int \<Rightarrow> int list option" where
  "stringRows c y =
     (if y < Height c then
        do { row \<leftarrow> rowRunes c 0 y; rest \<leftarrow> stringRows c (y + 4); Some (row @ [10] @ rest) }
      else Some [])"
  by pat_completeness auto
termination
  by (relation "measure (\<lambda>(c, y). nat (Height c - y))") auto

definition canvasString :: "BrailleCanvas \<Rightarrow> int list option" where
  "canvasString c = stringRows c 0"

text \<open>
  A canvas as \<open>NewBrailleCanvas\<close> makes it and \<open>Set\<close> keeps it: the buffer holds one
  cell per sub-pixel.
\<close>

definition canvasOk :: "BrailleCanvas \<Rightarrow> bool" where
  "canvasOk c \<longleftrightarrow> 0 \<le> Width c \<and> 0 \<le> Height c \<and> length (buffer c) = nat (Width c * Height c)"

text \<open>
  The words of the specification: the sub-pixel at \<open>(x, y)\<close>, the bit of the dot at
  column \<open>dx\<close> and row \<open>dy\<close> of a block, and the glyph of the block with origin
  \<open>(x, y)\<close> as \<open>0x2800\<close> plus the bits of its set dots.
\<close>

definition pixel :: "BrailleCanvas \<Rightarrow> int \<Rightarrow> int \<Rightarrow> bool" where
  "pixel c x y \<longleftrightarrow>
     0 \<le> x \<and> x < Width c \<and> 0 \<le> y \<and> y < Height c \<and> buffer c ! nat (y * Width c + x)"

definition dotBit :: "int \<Rightarrow> int \<Rightarrow> int" where
  "dotBit dx dy =
     (if dx = 0 \<and> dy = 0 then 1 else if dx = 0 \<and> dy = 1 then 2
      else if dx = 0 \<and> dy = 2 then 4 else if dx = 1 \<and> dy = 0 then 8
      else if dx = 1 \<and> dy = 1 then 16 else if dx = 1 \<and> dy = 2 then 32
      else if dx = 0 \<and> dy = 3 then 64 else if dx = 1 \<and> dy = 3 then 128 else 0)"

definition dot :: "BrailleCanvas \<Rightarrow> int \<Rightarrow> int \<Rightarrow> int \<Rightarrow> int \<Rightarrow> int" where
  "dot c x y dx dy = (if pixel c (x + dx) (y + dy) then dotBit dx dy else 0)"

definition glyph :: "BrailleCanvas \<Rightarrow> int \<Rightarrow> int \<Rightarrow> int" where
  "glyph c x y =
     0x2800 + dot c x y 0 0 + dot c x y 0 1 + dot c x y 0 2 + dot c x y 1 0
            + dot c x y 1 1 + dot c x y 1 2 + dot c x y 0 3 + dot c x y 1 3"

section \<open>The words of the specification for the ingestor\<close>

text \<open>
  The diff of a commit against the commit with hash \<open>p\<close>: the patch from the tree of
  \<open>p\<close> to the tree of the commit, where every lookup succeeds.
\<close>

definition patchAgainst :: "'tree repository \<Rightarrow> commitObject \<Rightarrow> string \<Rightarrow> patch option" where
  "patchAgainst r commit p =
     (case CommitObject r p of
        Inl _ \<Rightarrow> None
      | Inr parent \<Rightarrow>
          (case TreeObject r (TreeHash commit) of
             Inl _ \<Rightarrow> None
           | Inr cTree \<Rightarrow>
               (case TreeObject r (TreeHash parent) of
                  Inl _ \<Rightarrow> None
                | Inr pTree \<Rightarrow>
                    (case PatchTo r pTree cTree of Inl _ \<Rightarrow> None | Inr pa \<Rightarrow> Some pa))))"

section \<open>Examples\<close>

definition exTime :: "int \<Rightarrow> time" where
  "exTime y = \<lparr> Year = y, Month = 1, Weekday = 1, Hour = 12 \<rparr>"

definition exConfig :: "bool \<Rightarrow> Config" where
  "exConfig auto =
     \<lparr> CommitLimit = -1, RepoPath = ''.'', AutoProgress = auto, ProgressIntervalMs = 50 \<rparr>"

text \<open>A record as the ingestor sends it: hash, author, year, files, additions, deletions.\<close>

definition exRecord :: "string \<Rightarrow> string \<Rightarrow> int \<Rightarrow> int \<Rightarrow> int \<Rightarrow> int \<Rightarrow> commitInfo" where
  "exRecord h a y f adds dels =
     \<lparr> Hash = h, Message = ''change'', Author = a, Date = exTime y, DiffLoaded = False,
       DiffContent = [], Files = f, Additions = adds, Deletions = dels, Churn = adds + dels,
       CumulativeFiles = 0, CumulativeAdditions = 0, CumulativeDeletions = 0 \<rparr>"

text \<open>
  A repository of five commits, trees numbered from 1 and the empty tree 0: a root
  commit, a commit of +10/-2, a commit of +0/-5, a commit that changes nothing (the
  tree of its parent, as \<open>git commit --allow-empty\<close> makes it) and a merge commit of
  two parents.
\<close>

definition exObject :: "string \<Rightarrow> string \<Rightarrow> string list \<Rightarrow> commitObject" where
  "exObject h t ps =
     \<lparr> objHash = h, objMessage = ''change'', objAuthorName = ''ann'',
       objAuthorWhen = exTime 2024, TreeHash = t, ParentHashes = ps \<rparr>"

definition exRepo :: "nat repository" where
  "exRepo =
     \<lparr> CommitObject = (\<lambda>h.
         if h = ''aaaaaaa1'' then Inr (exObject ''aaaaaaa1'' ''t1'' [])
         else if h = ''aaaaaaa2'' then Inr (exObject ''aaaaaaa2'' ''t2'' [''aaaaaaa1''])
         else if h = ''aaaaaaa3'' then Inr (exObject ''aaaaaaa3'' ''t3'' [''aaaaaaa2''])
         else if h = ''aaaaaaa4'' then Inr (exObject ''aaaaaaa4'' ''t3'' [''aaaaaaa3''])
         else if h = ''aaaaaaa5'' then Inr (exObject ''aaaaaaa5'' ''t3'' [''aaaaaaa2'', ''aaaaaaa1''])
         else Inl ''object not found''),
       TreeObject = (\<lambda>t.
         if t = ''t1'' then Inr 1
         else if t = ''t2'' then Inr 2
         else if t = ''t3'' then Inr 3
         else Inl ''tree not found''),
       PatchTo = (\<lambda>p c.
         if p = c then Inr \<lparr> patchStats = [], patchString = [] \<rparr>
         else if p = 0 \<and> c = 1 then
           Inr \<lparr> patchStats = [\<lparr> Name = ''README'', Addition = 1, Deletion = 0 \<rparr>],
                 patchString = ''+hello'' \<rparr>
         else if p = 1 \<and> c = 2 then
           Inr \<lparr> patchStats = [\<lparr> Name = ''a.go'', Addition = 10, Deletion = 2 \<rparr>],
                 patchString = ''-old'' @ [CHR 0x0A] @ ''+new'' \<rparr>
         else if p = 2 \<and> c = 3 then
           Inr \<lparr> patchStats = [\<lparr> Name = ''a.go'', Addition = 0, Deletion = 5 \<rparr>],
                 patchString = ''-gone'' \<rparr>
         else Inl ''patch failed''),
       emptyTree = 0 \<rparr>"

section \<open>The words of the specification for the cumulative series\<close>

text \<open>
  The cumulative fields at every index are the sums of the deltas up to that index, and
  the cumulative fields never decrease along the list.
\<close>

definition prefixSums :: "commitInfo list \<Rightarrow> bool" where
  "prefixSums cs \<longleftrightarrow>
     (\<forall>i < length cs.
        CumulativeFiles (cs ! i) = sum_list (map Files (take (Suc i) cs)) \<and>
        CumulativeAdditions (cs ! i) = sum_list (map Additions (take (Suc i) cs)) \<and>
        CumulativeDeletions (cs ! i) = sum_list (map Deletions (take (Suc i) cs)))"

definition nonDecreasing :: "commitInfo list \<Rightarrow> bool" where
  "nonDecreasing cs \<longleftrightarrow>
     (\<forall>i j. i \<le> j \<and> j < length cs \<longrightarrow>
        CumulativeFiles (cs ! i) \<le> CumulativeFiles (cs ! j) \<and>
        CumulativeAdditions (cs ! i) \<le> CumulativeAdditions (cs ! j) \<and>
        CumulativeDeletions (cs ! i) \<le> CumulativeDeletions (cs ! j))"

text \<open>
  What is taken from go-git: the line counts of a patch's file statistics are not
  negative. A tick message is \<open>sentBy\<close> the ingestor when the record it carries is
  one that \<open>processCommit\<close> makes.
\<close>

definition statsNonNegative :: "'tree repository \<Rightarrow> bool" where
  "statsNonNegative r \<longleftrightarrow>
     (\<forall>p q pa. PatchTo r p q = Inr pa \<longrightarrow>
        (\<forall>s \<in> set (patchStats pa). 0 \<le> Addition s \<and> 0 \<le> Deletion s))"

definition sentBy :: "'tree repository \<Rightarrow> msg \<Rightarrow> bool" where
  "sentBy r message \<longleftrightarrow>
     (case message of
        progressTickMsg (RecvCommit c) \<Rightarrow> (\<exists>h. processCommit r h = Some c)
      | _ \<Rightarrow> True)"

text \<open>The fields of a record that the cumulative series and the maxima read.\<close>

definition deltas :: "commitInfo \<Rightarrow> (int \<times> int \<times> int) \<times> (int \<times> int \<times> int)" where
  "deltas c = ((Files c, Additions c, Deletions c),
               (CumulativeFiles c, CumulativeAdditions c, CumulativeDeletions c))"

section \<open>Properties\<close>

subsection \<open>Enter on an empty commit list\<close>

text \<open>
  Claim C10 says that no key event indexes the commit list out of bounds, and that Enter
  outside the diff view with auto-advance off reads the commit at the cursor only when
  the list is not empty. The Enter case has no such guard: in the initial model of a
  configuration with auto-advance off the list is empty, and Enter reads
  \<open>m.commits[0]\<close>, which is a panic (index 0 of a slice of length 0).
\<close>

theorem enter_on_empty_commits_panics:
  "\<not> AutoProgress cfg \<Longrightarrow>
     Update r (InitialModel cfg) (KeyMsg ''enter'') = Inl (IndexOutOfRange 0 0)"
  by (simp add: Update_def InitialModel_def updateNormalKey_def loadDiff_def commitAt_def)

theorem enter_on_empty_commits_panics_witness:
  "Update exRepo (InitialModel (exConfig False)) (KeyMsg ''enter'') = Inl (IndexOutOfRange 0 0)"
  using enter_on_empty_commits_panics [of "exConfig False" exRepo]
  by (simp add: exConfig_def)

subsection \<open>Year cycling after the year list has shrunk\<close>

text \<open>
  Claim C9 says that year cycling is total and that the selected year stays an element
  of the year list. \<open>View\<close> rebuilds the list from the commits up to the cursor and
  leaves the pointer alone, so the list can shrink under the pointer. After three commits
  of the years 2023, 2024 and 2025, "up" moves the pointer to index 3 of the four
  entries; two steps "left" put the cursor on the first commit and the list is
  \<open>[0, 2023]\<close>; the next "up" decrements the pointer to 2 and reads
  \<open>m.availableStatYears[2]\<close>: a panic (index 2 of a slice of length 2).
\<close>

theorem year_cycle_up_panics_after_shrink:
  "run r (InitialModel (exConfig True))
     [progressTickMsg (RecvCommit (exRecord ''aaaaaaa1'' ''ann'' 2023 0 0 0)),
      progressTickMsg (RecvCommit (exRecord ''aaaaaaa2'' ''ann'' 2024 1 1 0)),
      progressTickMsg (RecvCommit (exRecord ''aaaaaaa3'' ''ann'' 2025 1 1 0)),
      KeyMsg ''up'', KeyMsg ''left'', KeyMsg ''left'', KeyMsg ''up'']
   = Inl (IndexOutOfRange 2 2)"
  by (simp add: Update_def InitialModel_def exConfig_def updateNormalKey_def commitAt_def
      frame_def View_def updateTick_def integrate_def statYears_def exRecord_def exTime_def
      yearAt_def Let_def)

subsection \<open>The ingestor's statistics\<close>

lemma sumStats_sum:
  "sumStats ss a d = (a + sum_list (map Addition ss), d + sum_list (map Deletion ss))"
  by (induction ss arbitrary: a d) auto

lemma fetcherLoop_sent:
  "c \<in> set (fetcherLoop r limit hs n) \<Longrightarrow> \<exists>h \<in> set hs. processCommit r h = Some c"
  by (induction hs arbitrary: n) (auto split: option.splits if_splits)

lemma processCommit_nonneg:
  assumes "processCommit r h = Some c" and "statsNonNegative r"
  shows "0 \<le> Files c \<and> 0 \<le> Additions c \<and> 0 \<le> Deletions c"
  using assms unfolding statsNonNegative_def
  by (auto simp: processCommit_def NumParents_def newCommitInfo_def Parent_def Tree_def
      sumStats_sum Let_def split: sum.splits if_splits intro!: sum_list_nonneg)

lemma exRepo_root: "CommitObject exRepo ''aaaaaaa1'' = Inr (exObject ''aaaaaaa1'' ''t1'' [])"
  by (simp add: exRepo_def)

lemma exRepo_merge:
  "CommitObject exRepo ''aaaaaaa5'' = Inr (exObject ''aaaaaaa5'' ''t3'' [''aaaaaaa2'', ''aaaaaaa1''])"
  by (simp add: exRepo_def)

text \<open>
  Claim C3: for a commit with no parent the ingestor sends a record whose files,
  additions, deletions and churn are all zero; for a commit with at least one parent
  \<open>p\<close> (and any further parents \<open>ps\<close>) the record is made from the patch against
  \<open>p\<close> alone: the number of its file statistics, the sums of their additions and
  deletions, and the sum of the two as churn; when a lookup for that patch fails the
  commit is skipped.
\<close>

theorem processCommit_root_zero_first_parent_only:
  assumes "CommitObject r h = Inr commit"
  shows "(ParentHashes commit = [] \<longrightarrow>
            (\<exists>c. processCommit r h = Some c \<and> Files c = 0 \<and> Additions c = 0 \<and>
                 Deletions c = 0 \<and> Churn c = 0)) \<and>
         (\<forall>p ps. ParentHashes commit = p # ps \<longrightarrow>
            (case patchAgainst r commit p of
               None \<Rightarrow> processCommit r h = None
             | Some pa \<Rightarrow>
                 (\<exists>c. processCommit r h = Some c \<and>
                      Files c = int (length (patchStats pa)) \<and>
                      Additions c = sum_list (map Addition (patchStats pa)) \<and>
                      Deletions c = sum_list (map Deletion (patchStats pa)) \<and>
                      Churn c = sum_list (map Addition (patchStats pa)) +
                                sum_list (map Deletion (patchStats pa)) \<and>
                      Hash c = objHash commit \<and> Author c = objAuthorName commit \<and>
                      Date c = objAuthorWhen commit)))"
  using assms
  by (auto simp: processCommit_def NumParents_def newCommitInfo_def Parent_def Tree_def
      patchAgainst_def sumStats_sum Let_def split: sum.splits)

theorem processCommit_root_zero_first_parent_only_witness:
  "(\<exists>c. processCommit exRepo ''aaaaaaa1'' = Some c \<and> Files c = 0 \<and> Additions c = 0 \<and>
        Deletions c = 0 \<and> Churn c = 0) \<and>
   (\<exists>c. processCommit exRepo ''aaaaaaa5'' = Some c \<and> Files c = 1 \<and> Additions c = 0 \<and>
        Deletions c = 5 \<and> Churn c = 5 \<and> Hash c = ''aaaaaaa5'' \<and> Author c = ''ann'' \<and>
        Date c = exTime 2024)"
  using processCommit_root_zero_first_parent_only [OF exRepo_root]
    processCommit_root_zero_first_parent_only [OF exRepo_merge]
  by (simp add: exObject_def patchAgainst_def exRepo_def)

subsection \<open>The diff cache\<close>

lemma getDiff_deltas: "getDiff r c = (c', res) \<Longrightarrow> deltas c' = deltas c"
  by (auto simp: getDiff_def deltas_def split: if_splits sum.splits)

text \<open>
  A diff text that is not empty is cached: the next call returns it whatever the
  repository is, so it does not read the repository.
\<close>

lemma getDiff_cached_when_nonempty:
  "getDiff r c = (c', Inr d) \<Longrightarrow> d \<noteq> [] \<Longrightarrow> getDiff r' c' = (c', Inr d)"
  by (auto simp: getDiff_def split: if_splits sum.splits)

text \<open>
  Claim C4 says that the diff of every record is computed once and that a second call
  returns the cached text without recomputation. The cache is tested by
  \<open>commit.DiffContent != ""\<close>, so the empty diff of a commit that changes nothing is
  never a hit: the first call for such a record returns the empty text and leaves the
  record as it was, and the second call reads the repository again. Here the repository
  has lost its objects between the two calls, and the second call reports the lookup
  error instead of the text of the first call.
\<close>

theorem getDiff_empty_diff_not_cached:
  "getDiff exRepo (exRecord ''aaaaaaa4'' ''ann'' 2024 0 0 0)
     = (exRecord ''aaaaaaa4'' ''ann'' 2024 0 0 0, Inr []) \<and>
   getDiff (exRepo\<lparr>CommitObject := \<lambda>h. Inl ''object not found''\<rparr>)
       (fst (getDiff exRepo (exRecord ''aaaaaaa4'' ''ann'' 2024 0 0 0)))
     = (exRecord ''aaaaaaa4'' ''ann'' 2024 0 0 0, Inl ''object not found'')"
  by (simp add: getDiff_def exRepo_def exRecord_def exObject_def NumParents_def Parent_def Tree_def)

end
